theory Spec2Isabelle
  imports Main
begin

section \<open>JavaScript values, thrown errors and results\<close>

text \<open>
  Response bodies, request payloads and the arguments of the caller's handler have the
  TypeScript type \<open>any\<close>. They are modelled by the JSON-shaped values below. An object is
  an association list of its own properties (keys distinct, as after \<open>JSON.parse\<close>).
\<close>

datatype jsval =
    JUndefined
  | JNull
  | JBool bool
  | JNum int
  | JStr string
  | JObj "(string \<times> jsval) list"

text \<open>
  What an observable can fail with: the transport's \<open>HttpErrorResponse\<close> (fields
  \<open>status\<close> and \<open>error\<close>, the latter being the body of the failed response), or a
  \<open>TypeError\<close> raised by the JavaScript runtime.
\<close>

datatype thrown =
    HttpErrorResponse int jsval
  | TypeError string

datatype 'a outcome = Val 'a | Raise thrown

text \<open>\<open>error.status\<close> and \<open>error.error\<close>; both are \<open>undefined\<close> on a \<open>TypeError\<close>.\<close>

fun status_prop :: "thrown \<Rightarrow> jsval" where
  "status_prop (HttpErrorResponse st b) = JNum st"
| "status_prop (TypeError m) = JUndefined"

fun error_prop :: "thrown \<Rightarrow> jsval" where
  "error_prop (HttpErrorResponse st b) = b"
| "error_prop (TypeError m) = JUndefined"

text \<open>
  Member access \<open>v.name\<close> for a name that is no built-in property of a primitive (the
  source only reads \<open>message\<close>): a \<open>TypeError\<close> on \<open>null\<close> and \<open>undefined\<close>,
  \<open>undefined\<close> where the property is missing.
\<close>

fun get_prop :: "jsval \<Rightarrow> string \<Rightarrow> jsval outcome" where
  "get_prop JUndefined name = Raise (TypeError (''Cannot read properties of undefined (reading '' @ name @ '')''))"
| "get_prop JNull name = Raise (TypeError (''Cannot read properties of null (reading '' @ name @ '')''))"
| "get_prop (JObj fields) name = Val (case map_of fields name of None \<Rightarrow> JUndefined | Some v \<Rightarrow> v)"
| "get_prop v name = Val JUndefined"

section \<open>The world the service acts on\<close>

text \<open>
  A \<open>Date\<close> in local time: the number of the calendar day and the time within that day.
  \<open>d.setDate(d.getDate() + n)\<close> moves the date \<open>n\<close> calendar days ahead and keeps the
  time of day.
\<close>

record date =
  day_number :: int
  time_of_day :: nat

definition plus_days :: "date \<Rightarrow> int \<Rightarrow> date" where
  "plus_days d n = d\<lparr>day_number := day_number d + n\<rparr>"

record cookie =
  cvalue :: string
  expires :: date
  cpath :: string

datatype verb = GET | POST | PUT | DELETE

datatype response_type = Json | Blob

record request =
  rverb :: verb
  url :: string
  body :: "jsval option"
  headers :: "(string \<times> string) list"
  responseType :: response_type

text \<open>
  Everything the service does to its collaborators is appended to a trace, in program
  order. \<open>HandlerCalled\<close> is one invocation of the caller's \<open>closure\<close>; besides the two
  arguments it records what the handler would read from the session store at that moment
  (the five session keys with their values).
\<close>

datatype event =
    HttpSent request
  | CookieSet string string date string
  | CookieDeleted string string
  | Navigated "string list"
  | Reloaded
  | HandlerCalled jsval jsval "(string \<times> string) list"
  | WindowOpened string jsval
  | ConsoleLogged thrown
  | Unhandled thrown

record world =
  cookies :: "string \<rightharpoonup> cookie"
  now :: date
  trace :: "event list"

text \<open>
  The transport answers a request either with a success (the server's 2xx status and the
  body) or with a failure (status and error body). With the default \<open>observe: 'body'\<close> the
  subscriber of a successful request receives the body only.
\<close>

datatype 'a http_result = HttpOk int 'a | HttpFail int jsval

text \<open>
  Modelled from the spec: the interface \<open>OAuthResponse\<close> of
  \<open>oauthreponse.interface.ts\<close> is not among the sources; the spec's AuthResponse is the
  pair of credentials, read by the source as \<open>response.access_token\<close> and
  \<open>response.refresh_token\<close>.
\<close>

record OAuthResponse =
  access_token :: string
  refresh_token :: string

text \<open>
  The environment of a call: \<open>Globals.apiUrl\<close> (used by the service, not declared in
  \<open>globals.config.ts\<close>) and the remote API, which answers a request depending on the
  requests sent before it. \<open>auth\<close> answers the calls typed \<open>post<OAuthResponse>\<close>; its
  successful answers are taken to have that type.
\<close>

record env =
  apiUrl :: string
  api :: "request list \<Rightarrow> request \<Rightarrow> jsval http_result"
  auth :: "request list \<Rightarrow> request \<Rightarrow> OAuthResponse http_result"

fun requests_of :: "event list \<Rightarrow> request list" where
  "requests_of [] = []"
| "requests_of (HttpSent r # es) = r # requests_of es"
| "requests_of (e # es) = requests_of es"

fun handler_calls :: "event list \<Rightarrow> (jsval \<times> jsval) list" where
  "handler_calls [] = []"
| "handler_calls (HandlerCalled st b seen # es) = (st, b) # handler_calls es"
| "handler_calls (e # es) = handler_calls es"

fun handler_views :: "event list \<Rightarrow> (string \<times> string) list list" where
  "handler_views [] = []"
| "handler_views (HandlerCalled st b seen # es) = seen # handler_views es"
| "handler_views (e # es) = handler_views es"

section \<open>Effects and observables\<close>

text \<open>
  A JavaScript function with effects takes the world and returns its result, or what it
  threw, with the new world. An observable is the action of subscribing to it; every
  observable of the service emits one value and completes, or fails.
\<close>

type_synonym 'a action = "world \<Rightarrow> 'a outcome \<times> world"

type_synonym 'a observable = "'a action"

definition returns :: "'a \<Rightarrow> 'a action" where
  "returns v = (\<lambda>w. (Val v, w))"

definition andThen :: "'a action \<Rightarrow> 'b action \<Rightarrow> 'b action" where
  "andThen f g = (\<lambda>w. case f w of (Val v, w') \<Rightarrow> g w' | (Raise t, w') \<Rightarrow> (Raise t, w'))"

definition emit :: "event \<Rightarrow> world \<Rightarrow> world" where
  "emit e w = w\<lparr>trace := trace w @ [e]\<rparr>"

definition of_rx :: "'a \<Rightarrow> 'a observable" where
  "of_rx v = (\<lambda>w. (Val v, w))"

definition map_rx :: "('a \<Rightarrow> 'b action) \<Rightarrow> 'a observable \<Rightarrow> 'b observable" where
  "map_rx project source =
     (\<lambda>w. case source w of (Val v, w') \<Rightarrow> project v w' | (Raise t, w') \<Rightarrow> (Raise t, w'))"

text \<open>
  \<open>switchMap\<close>: \<open>project\<close> builds the inner observable when the value arrives (reading
  the world of that moment), and the inner observable is subscribed at once.
\<close>

definition switchMap :: "('a \<Rightarrow> world \<Rightarrow> 'b observable) \<Rightarrow> 'a observable \<Rightarrow> 'b observable" where
  "switchMap project source =
     (\<lambda>w. case source w of (Val v, w') \<Rightarrow> project v w' w' | (Raise t, w') \<Rightarrow> (Raise t, w'))"

text \<open>
  \<open>catchError\<close>: on failure the selector runs; the observable it returns replaces the
  source, and what the selector itself throws is the failure of the result.
\<close>

definition catchError :: "(thrown \<Rightarrow> ('a observable) action) \<Rightarrow> 'a observable \<Rightarrow> 'a observable" where
  "catchError selector source =
     (\<lambda>w. case source w of
        (Val v, w') \<Rightarrow> (Val v, w')
      | (Raise e, w') \<Rightarrow>
          (case selector e w' of
             (Val inner, w'') \<Rightarrow> inner w''
           | (Raise t, w'') \<Rightarrow> (Raise t, w'')))"

text \<open>\<open>.subscribe()\<close> without callbacks: a failure that reaches it is reported as unhandled.\<close>

definition subscribe :: "'a observable \<Rightarrow> world \<Rightarrow> world" where
  "subscribe source w =
     (case source w of (Val v, w') \<Rightarrow> w' | (Raise t, w') \<Rightarrow> emit (Unhandled t) w')"

definition http_request :: "(request list \<Rightarrow> request \<Rightarrow> 'a http_result) \<Rightarrow> request \<Rightarrow> 'a observable" where
  "http_request srv req =
     (\<lambda>w. case srv (requests_of (trace w)) req of
        HttpOk st v \<Rightarrow> (Val v, emit (HttpSent req) w)
      | HttpFail st e \<Rightarrow> (Raise (HttpErrorResponse st e), emit (HttpSent req) w))"

definition http_get :: "(request list \<Rightarrow> request \<Rightarrow> 'a http_result) \<Rightarrow> string \<Rightarrow> (string \<times> string) list \<Rightarrow> 'a observable" where
  "http_get srv u hs =
     http_request srv \<lparr>rverb = GET, url = u, body = None, headers = hs, responseType = Json\<rparr>"

definition http_delete :: "(request list \<Rightarrow> request \<Rightarrow> 'a http_result) \<Rightarrow> string \<Rightarrow> (string \<times> string) list \<Rightarrow> 'a observable" where
  "http_delete srv u hs =
     http_request srv \<lparr>rverb = DELETE, url = u, body = None, headers = hs, responseType = Json\<rparr>"

definition http_post :: "(request list \<Rightarrow> request \<Rightarrow> 'a http_result) \<Rightarrow> string \<Rightarrow> jsval \<Rightarrow> (string \<times> string) list \<Rightarrow> 'a observable" where
  "http_post srv u payload hs =
     http_request srv \<lparr>rverb = POST, url = u, body = Some payload, headers = hs, responseType = Json\<rparr>"

definition http_put :: "(request list \<Rightarrow> request \<Rightarrow> 'a http_result) \<Rightarrow> string \<Rightarrow> jsval \<Rightarrow> (string \<times> string) list \<Rightarrow> 'a observable" where
  "http_put srv u payload hs =
     http_request srv \<lparr>rverb = PUT, url = u, body = Some payload, headers = hs, responseType = Json\<rparr>"

definition http_post_blob :: "(request list \<Rightarrow> request \<Rightarrow> 'a http_result) \<Rightarrow> string \<Rightarrow> jsval \<Rightarrow> (string \<times> string) list \<Rightarrow> 'a observable" where
  "http_post_blob srv u payload hs =
     http_request srv \<lparr>rverb = POST, url = u, body = Some payload, headers = hs, responseType = Blob\<rparr>"

section \<open>The session store\<close>

text \<open>
  Modelled from the spec: the store is the collaborator \<open>CookieService\<close> (section 4.1):
  \<open>set\<close> writes a field and overwrites silently, \<open>get\<close> returns the stored value or
  the empty string if unset, \<open>delete\<close> removes a field and is idempotent.
\<close>

definition cookieService_get :: "world \<Rightarrow> string \<Rightarrow> string" where
  "cookieService_get w name = (case cookies w name of None \<Rightarrow> '''' | Some c \<Rightarrow> cvalue c)"

definition cookieService_set :: "string \<Rightarrow> string \<Rightarrow> date \<Rightarrow> string \<Rightarrow> jsval action" where
  "cookieService_set name v expiry p =
     (\<lambda>w. (Val JUndefined,
            emit (CookieSet name v expiry p)
              (w\<lparr>cookies := (cookies w)(name \<mapsto> \<lparr>cvalue = v, expires = expiry, cpath = p\<rparr>)\<rparr>)))"

definition cookieService_delete :: "string \<Rightarrow> string \<Rightarrow> jsval action" where
  "cookieService_delete name p =
     (\<lambda>w. (Val JUndefined, emit (CookieDeleted name p) (w\<lparr>cookies := (cookies w)(name := None)\<rparr>)))"

definition session_keys :: "string list" where
  "session_keys = [''is_loggedin'', ''logged_user'', ''role'', ''access_token'', ''refresh_token'']"

definition session_view :: "world \<Rightarrow> (string \<times> string) list" where
  "session_view w = map (\<lambda>k. (k, cookieService_get w k)) session_keys"

section \<open>The other collaborators\<close>

definition router_navigate :: "string list \<Rightarrow> jsval action" where
  "router_navigate commands = (\<lambda>w. (Val JUndefined, emit (Navigated commands) w))"

definition window_location_reload :: "jsval action" where
  "window_location_reload = (\<lambda>w. (Val JUndefined, emit Reloaded w))"

definition window_open :: "string \<Rightarrow> jsval \<Rightarrow> jsval action" where
  "window_open mime content = (\<lambda>w. (Val JUndefined, emit (WindowOpened mime content) w))"

definition console_log :: "thrown \<Rightarrow> jsval action" where
  "console_log t = (\<lambda>w. (Val JUndefined, emit (ConsoleLogged t) w))"

text \<open>
  The caller's handler \<open>closure(statusCode, data)\<close>: the invocation is recorded, and the
  handler is taken to return normally.
\<close>

definition closure :: "jsval \<Rightarrow> jsval \<Rightarrow> jsval action" where
  "closure st data = (\<lambda>w. (Val JUndefined, emit (HandlerCalled st data (session_view w)) w))"

section \<open>AuthService\<close>

text \<open>\<open>ReturnHttpHeaders\<close>: the bearer header, from the access token stored now.\<close>

definition ReturnHttpHeaders :: "world \<Rightarrow> (string \<times> string) list" where
  "ReturnHttpHeaders w = [(''Authorization'', ''Bearer '' @ cookieService_get w ''access_token'')]"

definition logoutUser :: "jsval action" where
  "logoutUser =
     andThen (cookieService_delete ''is_loggedin'' ''/'')
    (andThen (cookieService_delete ''logged_user'' ''/'')
    (andThen (cookieService_delete ''role'' ''/'')
    (andThen (cookieService_delete ''access_token'' ''/'')
    (andThen (cookieService_delete ''refresh_token'' ''/'')
     window_location_reload))))"

text \<open>
  \<open>RefreshToken()\<close> is called in the world \<open>w0\<close>: the expiry date and the body of the
  request are computed there, and the observable is returned. Its \<open>catchError\<close> ends
  with \<open>of(null)\<close> on every failure, so the observable never fails.
\<close>

definition RefreshToken :: "env \<Rightarrow> world \<Rightarrow> jsval observable" where
  "RefreshToken e w0 =
     (let cookieExpiry = plus_days (now w0) 30 in
      catchError
        (\<lambda>error.
           andThen
             (if status_prop error = JNum 401
              then andThen logoutUser (router_navigate [''/401''])
              else router_navigate [''/400''])
             (returns (of_rx JNull)))
        (map_rx
           (\<lambda>response.
              andThen (cookieService_set ''access_token'' (access_token response) cookieExpiry ''/'')
                      (cookieService_set ''refresh_token'' (refresh_token response) cookieExpiry ''/''))
           (http_post (auth e) (apiUrl e @ ''/auth/refresh-token'')
              (JObj [(''Username'', JStr (cookieService_get w0 ''logged_user'')),
                     (''RefreshToken'', JStr (cookieService_get w0 ''refresh_token''))])
              [])))"

text \<open>
  The else branch of the verb operations, \<open>closure(error.status, error.error.message);
  return of(null)\<close>: the arguments are evaluated first, and reading \<open>message\<close> may throw.
\<close>

definition deliver_message :: "thrown \<Rightarrow> (jsval observable) action" where
  "deliver_message error =
     (\<lambda>w. case get_prop (error_prop error) ''message'' of
        Raise t \<Rightarrow> (Raise t, w)
      | Val m \<Rightarrow> andThen (closure (status_prop error) m) (returns (of_rx JNull)) w)"

definition GetRequest :: "env \<Rightarrow> string \<Rightarrow> world \<Rightarrow> world" where
  "GetRequest e uri w0 =
     subscribe
       (catchError
          (\<lambda>error w.
             if status_prop error = JNum 401 then
               (Val (catchError
                       (\<lambda>refreshError.
                          andThen (closure (status_prop refreshError) (error_prop refreshError))
                                  (returns (of_rx JNull)))
                       (map_rx (\<lambda>response. closure (JNum 200) response)
                          (switchMap
                             (\<lambda>u w1. http_get (api e) (apiUrl e @ uri) (ReturnHttpHeaders w1))
                             (RefreshToken e w)))),
                w)
             else deliver_message error w)
          (map_rx (\<lambda>response. closure (JNum 200) response)
             (http_get (api e) (apiUrl e @ uri) (ReturnHttpHeaders w0))))
       w0"

definition PostRequest :: "env \<Rightarrow> string \<Rightarrow> jsval \<Rightarrow> world \<Rightarrow> world" where
  "PostRequest e uri payload w0 =
     subscribe
       (catchError
          (\<lambda>error w.
             if status_prop error = JNum 401 then
               (Val (catchError
                       (\<lambda>refreshError.
                          andThen (closure (status_prop refreshError) (error_prop refreshError))
                                  (returns (of_rx JNull)))
                       (map_rx (\<lambda>response. closure (JNum 200) response)
                          (switchMap
                             (\<lambda>u w1. http_post (api e) (apiUrl e @ uri) payload (ReturnHttpHeaders w1))
                             (RefreshToken e w)))),
                w)
             else deliver_message error w)
          (map_rx (\<lambda>response. closure (JNum 200) response)
             (http_post (api e) (apiUrl e @ uri) payload (ReturnHttpHeaders w0))))
       w0"

definition DeleteRequest :: "env \<Rightarrow> string \<Rightarrow> world \<Rightarrow> world" where
  "DeleteRequest e uri w0 =
     subscribe
       (catchError
          (\<lambda>error w.
             if status_prop error = JNum 401 then
               (Val (catchError
                       (\<lambda>refreshError.
                          andThen (closure (status_prop refreshError) (error_prop refreshError))
                                  (returns (of_rx JNull)))
                       (map_rx (\<lambda>response. closure (JNum 200) response)
                          (switchMap
                             (\<lambda>u w1. http_delete (api e) (apiUrl e @ uri) (ReturnHttpHeaders w1))
                             (RefreshToken e w)))),
                w)
             else deliver_message error w)
          (map_rx (\<lambda>response. closure (JNum 200) response)
             (http_delete (api e) (apiUrl e @ uri) (ReturnHttpHeaders w0))))
       w0"

definition PutRequest :: "env \<Rightarrow> string \<Rightarrow> jsval \<Rightarrow> world \<Rightarrow> world" where
  "PutRequest e uri payload w0 =
     subscribe
       (catchError
          (\<lambda>error w.
             if status_prop error = JNum 401 then
               (Val (catchError
                       (\<lambda>refreshError.
                          andThen (closure (status_prop refreshError) (error_prop refreshError))
                                  (returns (of_rx JNull)))
                       (map_rx (\<lambda>response. closure (JNum 200) response)
                          (switchMap
                             (\<lambda>u w1. http_put (api e) (apiUrl e @ uri) payload (ReturnHttpHeaders w1))
                             (RefreshToken e w)))),
                w)
             else deliver_message error w)
          (map_rx (\<lambda>response. closure (JNum 200) response)
             (http_put (api e) (apiUrl e @ uri) payload (ReturnHttpHeaders w0))))
       w0"

text \<open>
  \<open>PostDownload\<close> builds the pipeline below and drops it: the source has no
  \<open>.subscribe()\<close> here, and the transport's observables are cold (a request is sent
  when its observable is subscribed). So the call returns with the world as it was.
\<close>

definition spreadsheet_mime :: string where
  "spreadsheet_mime = ''application/vnd.openxmlformats-officedocument.spreadsheetml.sheet''"

definition PostDownload_pipe :: "env \<Rightarrow> string \<Rightarrow> jsval \<Rightarrow> jsval observable" where
  "PostDownload_pipe e uri payload =
     catchError
       (\<lambda>error. andThen (console_log error) (returns (of_rx JNull)))
       (map_rx (\<lambda>response. window_open spreadsheet_mime response)
          (http_post_blob (api e) (apiUrl e @ uri) payload [(''Accept'', spreadsheet_mime)]))"

definition PostDownload :: "env \<Rightarrow> string \<Rightarrow> jsval \<Rightarrow> world \<Rightarrow> world" where
  "PostDownload e uri payload w0 = (let pipeline = PostDownload_pipe e uri payload in w0)"

text \<open>One call of a verb operation, for statements about all four.\<close>

datatype verb_call =
    Get string
  | Post string jsval
  | Put string jsval
  | Delete string

fun run_verb :: "env \<Rightarrow> verb_call \<Rightarrow> world \<Rightarrow> world" where
  "run_verb e (Get uri) w = GetRequest e uri w"
| "run_verb e (Post uri payload) w = PostRequest e uri payload w"
| "run_verb e (Put uri payload) w = PutRequest e uri payload w"
| "run_verb e (Delete uri) w = DeleteRequest e uri w"

text \<open>The request a verb operation sends when the stored access token is \<open>tok\<close>.\<close>

fun request_of :: "env \<Rightarrow> verb_call \<Rightarrow> string \<Rightarrow> request" where
  "request_of e (Get uri) tok =
     \<lparr>rverb = GET, url = apiUrl e @ uri, body = None,
      headers = [(''Authorization'', ''Bearer '' @ tok)], responseType = Json\<rparr>"
| "request_of e (Post uri payload) tok =
     \<lparr>rverb = POST, url = apiUrl e @ uri, body = Some payload,
      headers = [(''Authorization'', ''Bearer '' @ tok)], responseType = Json\<rparr>"
| "request_of e (Put uri payload) tok =
     \<lparr>rverb = PUT, url = apiUrl e @ uri, body = Some payload,
      headers = [(''Authorization'', ''Bearer '' @ tok)], responseType = Json\<rparr>"
| "request_of e (Delete uri) tok =
     \<lparr>rverb = DELETE, url = apiUrl e @ uri, body = None,
      headers = [(''Authorization'', ''Bearer '' @ tok)], responseType = Json\<rparr>"

text \<open>The request \<open>RefreshToken\<close> sends from a world.\<close>

definition refresh_request :: "env \<Rightarrow> world \<Rightarrow> request" where
  "refresh_request e w =
     \<lparr>rverb = POST, url = apiUrl e @ ''/auth/refresh-token'',
      body = Some (JObj [(''Username'', JStr (cookieService_get w ''logged_user'')),
                         (''RefreshToken'', JStr (cookieService_get w ''refresh_token''))]),
      headers = [], responseType = Json\<rparr>"

section \<open>Auxiliary notions for the statements\<close>

text \<open>
  What the inner pipeline of a verb operation hands to the handler for the answer to the
  reissued request: \<open>closure(200, response)\<close> on success,
  \<open>closure(refreshError.status, refreshError.error)\<close> on failure.
\<close>

definition delivered :: "jsval http_result \<Rightarrow> jsval \<times> jsval" where
  "delivered r = (case r of HttpOk st v \<Rightarrow> (JNum 200, v) | HttpFail st b \<Rightarrow> (JNum st, b))"

text \<open>The store after the two writes of a successful refresh, and after the five deletes of \<open>logoutUser\<close>.\<close>

definition refreshed :: "world \<Rightarrow> OAuthResponse \<Rightarrow> string \<rightharpoonup> cookie" where
  "refreshed w resp =
     (cookies w)
       (''access_token'' \<mapsto> \<lparr>cvalue = access_token resp, expires = plus_days (now w) 30, cpath = ''/''\<rparr>,
        ''refresh_token'' \<mapsto> \<lparr>cvalue = refresh_token resp, expires = plus_days (now w) 30, cpath = ''/''\<rparr>)"

definition cleared :: "world \<Rightarrow> string \<rightharpoonup> cookie" where
  "cleared w =
     (cookies w)
       (''is_loggedin'' := None, ''logged_user'' := None, ''role'' := None,
        ''access_token'' := None, ''refresh_token'' := None)"

section \<open>Concrete sessions and servers\<close>

text \<open>A logged-in session holding the tokens A1 and R1, with nothing done yet.\<close>

definition stored :: "string \<Rightarrow> cookie" where
  "stored v = \<lparr>cvalue = v, expires = \<lparr>day_number = 30, time_of_day = 0\<rparr>, cpath = ''/''\<rparr>"

definition session_A1 :: world where
  "session_A1 =
     \<lparr>cookies = map_of
        [(''is_loggedin'', stored ''yes''), (''logged_user'', stored ''alice''),
         (''role'', stored ''admin''), (''access_token'', stored ''A1''),
         (''refresh_token'', stored ''R1'')],
      now = \<lparr>day_number = 12, time_of_day = 0\<rparr>,
      trace = []\<rparr>"

definition bearer :: "request \<Rightarrow> string" where
  "bearer req = (case map_of (headers req) ''Authorization'' of None \<Rightarrow> [] | Some h \<Rightarrow> h)"

text \<open>The refresh endpoint accepts alice's R1 and issues A2 and R2.\<close>

definition auth_rotates :: "request list \<Rightarrow> request \<Rightarrow> OAuthResponse http_result" where
  "auth_rotates hist req =
     (if body req = Some (JObj [(''Username'', JStr ''alice''), (''RefreshToken'', JStr ''R1'')])
      then HttpOk 200 \<lparr>access_token = ''A2'', refresh_token = ''R2''\<rparr>
      else HttpFail 401 JNull)"

text \<open>An API that rejects every token, and one that accepts A2 only and answers 201.\<close>

definition env_expired :: env where
  "env_expired =
     \<lparr>apiUrl = ''https://api.test'',
      api = (\<lambda>hist req. HttpFail 401 (JObj [(''message'', JStr ''token expired'')])),
      auth = auth_rotates\<rparr>"

definition env_renewed :: env where
  "env_renewed =
     \<lparr>apiUrl = ''https://api.test'',
      api = (\<lambda>hist req. if bearer req = ''Bearer A2''
                          then HttpOk 201 (JObj [(''id'', JNum 7)])
                          else HttpFail 401 (JObj [(''message'', JStr ''token expired'')])),
      auth = auth_rotates\<rparr>"

text \<open>
  The refresh endpoint rejects the refresh token; the API rejects A1 as expired and a
  request without a token as anonymous.
\<close>

definition env_revoked :: env where
  "env_revoked =
     \<lparr>apiUrl = ''https://api.test'',
      api = (\<lambda>hist req. if bearer req = ''Bearer ''
                          then HttpFail 401 (JObj [(''message'', JStr ''missing bearer token'')])
                          else HttpFail 401 (JObj [(''message'', JStr ''token expired'')])),
      auth = (\<lambda>hist req. HttpFail 401 (JObj [(''message'', JStr ''refresh token revoked'')]))\<rparr>"

text \<open>The refresh endpoint is down (503).\<close>

definition env_auth_down :: env where
  "env_auth_down =
     \<lparr>apiUrl = ''https://api.test'',
      api = (\<lambda>hist req. HttpFail 401 (JObj [(''message'', JStr ''token expired'')])),
      auth = (\<lambda>hist req. HttpFail 503 JNull)\<rparr>"

text \<open>The API fails with status 500: once with an empty body, once with a message.\<close>

definition env_500_empty :: env where
  "env_500_empty =
     \<lparr>apiUrl = ''https://api.test'',
      api = (\<lambda>hist req. HttpFail 500 JNull),
      auth = auth_rotates\<rparr>"

definition env_500_message :: env where
  "env_500_message =
     \<lparr>apiUrl = ''https://api.test'',
      api = (\<lambda>hist req. HttpFail 500 (JObj [(''message'', JStr ''boom''), (''code'', JNum 17)])),
      auth = auth_rotates\<rparr>"

section \<open>Traces\<close>

lemma requests_of_append: "requests_of (xs @ ys) = requests_of xs @ requests_of ys"
  by (induction xs rule: requests_of.induct) simp_all

lemma handler_calls_append: "handler_calls (xs @ ys) = handler_calls xs @ handler_calls ys"
  by (induction xs rule: handler_calls.induct) simp_all

lemma handler_views_append: "handler_views (xs @ ys) = handler_views xs @ handler_views ys"
  by (induction xs rule: handler_views.induct) simp_all

lemmas rx_defs = subscribe_def catchError_def map_rx_def switchMap_def of_rx_def returns_def
  andThen_def http_request_def http_get_def http_post_def http_put_def http_delete_def
  closure_def emit_def deliver_message_def ReturnHttpHeaders_def

lemmas verb_defs = GetRequest_def PostRequest_def PutRequest_def DeleteRequest_def

lemmas collaborator_defs = cookieService_set_def cookieService_delete_def router_navigate_def
  window_location_reload_def logoutUser_def

section \<open>The refresh routine, case by case\<close>

lemma refresh_ok:
  assumes "auth e (requests_of (trace w)) (refresh_request e w0) = HttpOk st resp"
      and "cookies w = cookies w0" and "now w = now w0"
  shows "RefreshToken e w0 w =
     (Val JUndefined,
      w\<lparr>cookies := refreshed w resp,
        trace := trace w @
          [HttpSent (refresh_request e w0),
           CookieSet ''access_token'' (access_token resp) (plus_days (now w) 30) ''/'',
           CookieSet ''refresh_token'' (refresh_token resp) (plus_days (now w) 30) ''/'']\<rparr>)"
  using assms
  by (simp add: RefreshToken_def rx_defs refresh_request_def collaborator_defs Let_def refreshed_def)

lemma refresh_401:
  assumes "auth e (requests_of (trace w)) (refresh_request e w0) = HttpFail 401 b"
  shows "RefreshToken e w0 w =
     (Val JNull,
      w\<lparr>cookies := cleared w,
        trace := trace w @
          [HttpSent (refresh_request e w0),
           CookieDeleted ''is_loggedin'' ''/'', CookieDeleted ''logged_user'' ''/'',
           CookieDeleted ''role'' ''/'', CookieDeleted ''access_token'' ''/'',
           CookieDeleted ''refresh_token'' ''/'', Reloaded, Navigated [''/401'']]\<rparr>)"
  using assms
  by (simp add: RefreshToken_def rx_defs refresh_request_def collaborator_defs Let_def cleared_def)

lemma refresh_other:
  assumes "auth e (requests_of (trace w)) (refresh_request e w0) = HttpFail st b" and "st \<noteq> 401"
  shows "RefreshToken e w0 w =
     (Val JNull, w\<lparr>trace := trace w @ [HttpSent (refresh_request e w0), Navigated [''/400'']]\<rparr>)"
  using assms
  by (simp add: RefreshToken_def rx_defs refresh_request_def collaborator_defs Let_def)


section \<open>The verb operations, case by case\<close>

lemma verb_ok:
  assumes "api e (requests_of (trace w)) (request_of e c (cookieService_get w ''access_token'')) = HttpOk st v"
  shows "run_verb e c w =
     w\<lparr>trace := trace w @
          [HttpSent (request_of e c (cookieService_get w ''access_token'')),
           HandlerCalled (JNum 200) v (session_view w)]\<rparr>"
  using assms
  by (cases c) (simp_all add: verb_defs rx_defs session_view_def cookieService_get_def)

lemma verb_other:
  assumes "api e (requests_of (trace w)) (request_of e c (cookieService_get w ''access_token'')) = HttpFail st b"
    and "st \<noteq> 401" and "get_prop b ''message'' = Val m"
  shows "run_verb e c w =
     w\<lparr>trace := trace w @
          [HttpSent (request_of e c (cookieService_get w ''access_token'')),
           HandlerCalled (JNum st) m (session_view w)]\<rparr>"
  using assms
  by (cases c) (simp_all add: verb_defs rx_defs session_view_def cookieService_get_def)

lemma verb_other_throw:
  assumes "api e (requests_of (trace w)) (request_of e c (cookieService_get w ''access_token'')) = HttpFail st b"
    and "st \<noteq> 401" and "get_prop b ''message'' = Raise t"
  shows "run_verb e c w =
     w\<lparr>trace := trace w @
          [HttpSent (request_of e c (cookieService_get w ''access_token'')), Unhandled t]\<rparr>"
  using assms
  by (cases c) (simp_all add: verb_defs rx_defs session_view_def cookieService_get_def)

text \<open>
  After a 401 the operation continues with whatever \<open>RefreshToken\<close> leaves behind: the
  request is built again from the store of that moment, and its answer goes to the handler.
\<close>

lemma verb_401:
  assumes first: "api e (requests_of (trace w)) (request_of e c (cookieService_get w ''access_token'')) = HttpFail 401 b"
    and refresh: "RefreshToken e (emit (HttpSent (request_of e c (cookieService_get w ''access_token''))) w)
                     (emit (HttpSent (request_of e c (cookieService_get w ''access_token''))) w) = (Val u, w2)"
  shows "run_verb e c w =
     emit (HandlerCalled
             (fst (delivered (api e (requests_of (trace w2)) (request_of e c (cookieService_get w2 ''access_token'')))))
             (snd (delivered (api e (requests_of (trace w2)) (request_of e c (cookieService_get w2 ''access_token'')))))
             (session_view w2))
       (emit (HttpSent (request_of e c (cookieService_get w2 ''access_token''))) w2)"
  using assms
  by (cases c)
     (simp_all add: verb_defs subscribe_def catchError_def map_rx_def switchMap_def of_rx_def
        returns_def andThen_def http_request_def http_get_def http_post_def http_put_def
        http_delete_def closure_def ReturnHttpHeaders_def delivered_def session_view_def
        cookieService_get_def emit_def
        split: http_result.splits)

lemma refresh_request_emit [simp]: "refresh_request e (emit ev w) = refresh_request e w"
  by (simp add: refresh_request_def cookieService_get_def emit_def)

lemma cookies_emit [simp]: "cookies (emit ev w) = cookies w"
  by (simp add: emit_def)

lemma now_emit [simp]: "now (emit ev w) = now w"
  by (simp add: emit_def)

lemma trace_emit [simp]: "trace (emit ev w) = trace w @ [ev]"
  by (simp add: emit_def)

lemma get_emit [simp]: "cookieService_get (emit ev w) k = cookieService_get w k"
  by (simp add: cookieService_get_def)

lemma session_view_emit [simp]: "session_view (emit ev w) = session_view w"
  by (simp add: session_view_def)

lemma refreshed_emit [simp]: "refreshed (emit ev w) resp = refreshed w resp"
  by (simp add: refreshed_def)

lemma cleared_emit [simp]: "cleared (emit ev w) = cleared w"
  by (simp add: cleared_def)

lemma session_view_trace [simp]: "session_view (w\<lparr>trace := t\<rparr>) = session_view w"
  by (simp add: session_view_def cookieService_get_def)

lemma verb_401_refresh_ok:
  assumes first: "api e (requests_of (trace w)) (request_of e c (cookieService_get w ''access_token'')) = HttpFail 401 b"
    and refresh: "auth e (requests_of (trace w) @ [request_of e c (cookieService_get w ''access_token'')]) (refresh_request e w) = HttpOk st resp"
  shows "run_verb e c w =
    w\<lparr>cookies := refreshed w resp,
      trace := trace w @
        [HttpSent (request_of e c (cookieService_get w ''access_token'')),
         HttpSent (refresh_request e w),
         CookieSet ''access_token'' (access_token resp) (plus_days (now w) 30) ''/'',
         CookieSet ''refresh_token'' (refresh_token resp) (plus_days (now w) 30) ''/'',
         HttpSent (request_of e c (access_token resp)),
         HandlerCalled
           (fst (delivered (api e (requests_of (trace w) @ [request_of e c (cookieService_get w ''access_token''), refresh_request e w]) (request_of e c (access_token resp)))))
           (snd (delivered (api e (requests_of (trace w) @ [request_of e c (cookieService_get w ''access_token''), refresh_request e w]) (request_of e c (access_token resp)))))
           (session_view (w\<lparr>cookies := refreshed w resp\<rparr>))]\<rparr>"
proof -
  let ?w1 = "emit (HttpSent (request_of e c (cookieService_get w ''access_token''))) w"
  have "auth e (requests_of (trace ?w1)) (refresh_request e ?w1) = HttpOk st resp"
    using refresh by (simp add: requests_of_append)
  from verb_401 [OF first refresh_ok [OF this refl refl]]
  show ?thesis
    by (simp add: emit_def cookieService_get_def session_view_def refresh_request_def refreshed_def requests_of_append)
qed

lemma verb_401_refresh_401:
  assumes first: "api e (requests_of (trace w)) (request_of e c (cookieService_get w ''access_token'')) = HttpFail 401 b"
    and refresh: "auth e (requests_of (trace w) @ [request_of e c (cookieService_get w ''access_token'')]) (refresh_request e w) = HttpFail 401 rb"
  shows "run_verb e c w =
    w\<lparr>cookies := cleared w,
      trace := trace w @
        [HttpSent (request_of e c (cookieService_get w ''access_token'')),
         HttpSent (refresh_request e w),
         CookieDeleted ''is_loggedin'' ''/'', CookieDeleted ''logged_user'' ''/'',
         CookieDeleted ''role'' ''/'', CookieDeleted ''access_token'' ''/'',
         CookieDeleted ''refresh_token'' ''/'', Reloaded, Navigated [''/401''],
         HttpSent (request_of e c []),
         HandlerCalled
           (fst (delivered (api e (requests_of (trace w) @ [request_of e c (cookieService_get w ''access_token''), refresh_request e w]) (request_of e c []))))
           (snd (delivered (api e (requests_of (trace w) @ [request_of e c (cookieService_get w ''access_token''), refresh_request e w]) (request_of e c []))))
           (session_view (w\<lparr>cookies := cleared w\<rparr>))]\<rparr>"
proof -
  let ?w1 = "emit (HttpSent (request_of e c (cookieService_get w ''access_token''))) w"
  have "auth e (requests_of (trace ?w1)) (refresh_request e ?w1) = HttpFail 401 rb"
    using refresh by (simp add: requests_of_append)
  from verb_401 [OF first refresh_401 [OF this]]
  show ?thesis
    by (simp add: emit_def cookieService_get_def session_view_def refresh_request_def cleared_def requests_of_append)
qed

lemma verb_401_refresh_other:
  assumes first: "api e (requests_of (trace w)) (request_of e c (cookieService_get w ''access_token'')) = HttpFail 401 b"
    and refresh: "auth e (requests_of (trace w) @ [request_of e c (cookieService_get w ''access_token'')]) (refresh_request e w) = HttpFail rst rb"
    and other: "rst \<noteq> 401"
  shows "run_verb e c w =
    w\<lparr>trace := trace w @
        [HttpSent (request_of e c (cookieService_get w ''access_token'')),
         HttpSent (refresh_request e w),
         Navigated [''/400''],
         HttpSent (request_of e c (cookieService_get w ''access_token'')),
         HandlerCalled
           (fst (delivered (api e (requests_of (trace w) @ [request_of e c (cookieService_get w ''access_token''), refresh_request e w]) (request_of e c (cookieService_get w ''access_token'')))))
           (snd (delivered (api e (requests_of (trace w) @ [request_of e c (cookieService_get w ''access_token''), refresh_request e w]) (request_of e c (cookieService_get w ''access_token'')))))
           (session_view w)]\<rparr>"
proof -
  let ?w1 = "emit (HttpSent (request_of e c (cookieService_get w ''access_token''))) w"
  have "auth e (requests_of (trace ?w1)) (refresh_request e ?w1) = HttpFail rst rb"
    using refresh by (simp add: requests_of_append)
  from verb_401 [OF first refresh_other [OF this other]]
  show ?thesis
    by (simp add: emit_def cookieService_get_def session_view_def refresh_request_def requests_of_append)
qed

lemma request_of_fields:
  "headers (request_of e c tok) = [(''Authorization'', ''Bearer '' @ tok)]"
  "rverb (request_of e c tok) = rverb (request_of e c tok')"
  "url (request_of e c tok) = url (request_of e c tok')"
  "body (request_of e c tok) = body (request_of e c tok')"
  by (cases c; simp)+

section \<open>Refresh and retry\<close>

text \<open>
  Claim C1. For each of the four verb operations: when the first request is answered 401
  and the refresh succeeds, the requests sent are the first one, the refresh, and the
  original request once more, now with the bearer header of the new access token; there
  is no further refresh. The handler is called with the answer to that retry: \<open>200\<close>
  and the body on success, the status and the error body on failure (a 401 included).
\<close>

theorem refresh_then_single_retry:
  assumes "req1 = request_of e c (cookieService_get w ''access_token'')"
      and "api e (requests_of (trace w)) req1 = HttpFail 401 b"
      and "auth e (requests_of (trace w) @ [req1]) (refresh_request e w) = HttpOk st resp"
      and "req2 = request_of e c (access_token resp)"
      and "retry = api e (requests_of (trace w) @ [req1, refresh_request e w]) req2"
  shows "requests_of (trace (run_verb e c w)) = requests_of (trace w) @ [req1, refresh_request e w, req2]
       \<and> headers req2 = [(''Authorization'', ''Bearer '' @ access_token resp)]
       \<and> rverb req2 = rverb req1 \<and> url req2 = url req1 \<and> body req2 = body req1
       \<and> handler_calls (trace (run_verb e c w)) =
           handler_calls (trace w) @
             [case retry of HttpOk s v \<Rightarrow> (JNum 200, v) | HttpFail s err \<Rightarrow> (JNum s, err)]"
proof -
  have run: "trace (run_verb e c w) =
      trace w @
        [HttpSent req1, HttpSent (refresh_request e w),
         CookieSet ''access_token'' (access_token resp) (plus_days (now w) 30) ''/'',
         CookieSet ''refresh_token'' (refresh_token resp) (plus_days (now w) 30) ''/'',
         HttpSent req2,
         HandlerCalled (fst (delivered retry)) (snd (delivered retry))
           (session_view (w\<lparr>cookies := refreshed w resp\<rparr>))]"
    using assms verb_401_refresh_ok [of e w c b st resp] by simp
  have sent: "requests_of (trace (run_verb e c w)) = requests_of (trace w) @ [req1, refresh_request e w, req2]"
    by (simp add: run requests_of_append)
  have same: "rverb req2 = rverb req1 \<and> url req2 = url req1 \<and> body req2 = body req1"
    unfolding assms(1,4) by (cases c) simp_all
  have hdr: "headers req2 = [(''Authorization'', ''Bearer '' @ access_token resp)]"
    unfolding assms(4) by (rule request_of_fields(1))
  have called: "handler_calls (trace (run_verb e c w)) =
      handler_calls (trace w) @
        [case retry of HttpOk s v \<Rightarrow> (JNum 200, v) | HttpFail s err \<Rightarrow> (JNum s, err)]"
    by (simp add: run handler_calls_append delivered_def split: http_result.splits)
  from sent hdr same called show ?thesis by simp
qed

lemma session_A1_fields:
  "cookieService_get session_A1 ''access_token'' = ''A1''"
  "cookieService_get session_A1 ''refresh_token'' = ''R1''"
  "cookieService_get session_A1 ''logged_user'' = ''alice''"
  "trace session_A1 = []"
  by (simp_all add: session_A1_def cookieService_get_def stored_def)

theorem refresh_then_single_retry_witness:
  "api env_expired (requests_of (trace session_A1)) (request_of env_expired (Get ''/profile'') ''A1'')
     = HttpFail 401 (JObj [(''message'', JStr ''token expired'')])
   \<and> auth env_expired [request_of env_expired (Get ''/profile'') ''A1''] (refresh_request env_expired session_A1)
     = HttpOk 200 \<lparr>access_token = ''A2'', refresh_token = ''R2''\<rparr>
   \<and> requests_of (trace (run_verb env_expired (Get ''/profile'') session_A1)) =
       [request_of env_expired (Get ''/profile'') ''A1'',
        refresh_request env_expired session_A1,
        request_of env_expired (Get ''/profile'') ''A2'']
   \<and> handler_calls (trace (run_verb env_expired (Get ''/profile'') session_A1)) =
       [(JNum 401, JObj [(''message'', JStr ''token expired'')])]"
proof -
  have h1: "api env_expired (requests_of (trace session_A1))
              (request_of env_expired (Get ''/profile'') (cookieService_get session_A1 ''access_token''))
            = HttpFail 401 (JObj [(''message'', JStr ''token expired'')])"
    by (simp add: env_expired_def)
  have h2: "auth env_expired
              (requests_of (trace session_A1) @
                 [request_of env_expired (Get ''/profile'') (cookieService_get session_A1 ''access_token'')])
              (refresh_request env_expired session_A1)
            = HttpOk 200 \<lparr>access_token = ''A2'', refresh_token = ''R2''\<rparr>"
    by (simp add: env_expired_def auth_rotates_def refresh_request_def session_A1_fields)
  from refresh_then_single_retry [OF refl h1 h2 refl refl] h1 h2
  show ?thesis
    by (simp add: session_A1_fields env_expired_def)
qed

section \<open>A refresh that fails\<close>

text \<open>
  Claim C2 (fails on the code). The first request of a verb operation is answered 401
  and the refresh is rejected with 401 and the body "refresh token revoked". The
  source's \<open>RefreshToken\<close> ends its own \<open>catchError\<close> with \<open>of(null)\<close>, so its failure
  never reaches the handler \<open>refreshError\<close> of the verb operation: the operation goes on,
  sends the request a third time with the bearer header of the emptied store, and the
  handler receives the answer to that request, not the refresh error.
\<close>

theorem failed_refresh_still_retries:
  "requests_of (trace (run_verb env_revoked (Get ''/profile'') session_A1)) =
     [request_of env_revoked (Get ''/profile'') ''A1'',
      refresh_request env_revoked session_A1,
      request_of env_revoked (Get ''/profile'') []]
   \<and> handler_calls (trace (run_verb env_revoked (Get ''/profile'') session_A1)) =
       [(JNum 401, JObj [(''message'', JStr ''missing bearer token'')])]
   \<and> handler_calls (trace (run_verb env_revoked (Get ''/profile'') session_A1)) \<noteq>
       [(JNum 401, JObj [(''message'', JStr ''refresh token revoked'')])]
   \<and> handler_views (trace (run_verb env_revoked (Get ''/profile'') session_A1)) =
       [[(''is_loggedin'', []), (''logged_user'', []), (''role'', []),
         (''access_token'', []), (''refresh_token'', [])]]"
proof -
  have h1: "api env_revoked (requests_of (trace session_A1))
              (request_of env_revoked (Get ''/profile'') (cookieService_get session_A1 ''access_token''))
            = HttpFail 401 (JObj [(''message'', JStr ''token expired'')])"
    by (simp add: env_revoked_def session_A1_fields bearer_def)
  have h2: "auth env_revoked
              (requests_of (trace session_A1) @
                 [request_of env_revoked (Get ''/profile'') (cookieService_get session_A1 ''access_token'')])
              (refresh_request env_revoked session_A1)
            = HttpFail 401 (JObj [(''message'', JStr ''refresh token revoked'')])"
    by (simp add: env_revoked_def)
  have retry: "api env_revoked
              (requests_of (trace session_A1) @
                 [request_of env_revoked (Get ''/profile'') (cookieService_get session_A1 ''access_token''),
                  refresh_request env_revoked session_A1])
              (request_of env_revoked (Get ''/profile'') [])
            = HttpFail 401 (JObj [(''message'', JStr ''missing bearer token'')])"
    by (simp add: env_revoked_def bearer_def)
  have view: "session_view (session_A1\<lparr>cookies := cleared session_A1\<rparr>) =
      [(''is_loggedin'', []), (''logged_user'', []), (''role'', []),
       (''access_token'', []), (''refresh_token'', [])]"
    by (simp add: session_view_def session_keys_def cookieService_get_def cleared_def)
  show ?thesis
    unfolding verb_401_refresh_401 [OF h1 h2] retry
    by (simp add: session_A1_fields delivered_def view)
qed

section \<open>A failure without a body\<close>

text \<open>
  Claim C3 (fails on the code). A verb operation whose request fails with status 500
  and an empty body: the transport reports the body as \<open>null\<close>, reading
  \<open>error.error.message\<close> throws inside the \<open>catchError\<close> selector before \<open>closure\<close>
  is called, and the failure ends at \<open>subscribe()\<close> as an unhandled error. The handler
  is not invoked at all.
\<close>

theorem handler_skipped_on_empty_error_body:
  "trace (run_verb env_500_empty (Get ''/orders'') session_A1) =
     [HttpSent (request_of env_500_empty (Get ''/orders'') ''A1''),
      Unhandled (TypeError ''Cannot read properties of null (reading message)'')]
   \<and> handler_calls (trace (run_verb env_500_empty (Get ''/orders'') session_A1)) = []"
proof -
  have h1: "api env_500_empty (requests_of (trace session_A1))
              (request_of env_500_empty (Get ''/orders'') (cookieService_get session_A1 ''access_token''))
            = HttpFail 500 JNull"
    by (simp add: env_500_empty_def)
  have h2: "get_prop JNull ''message'' = Raise (TypeError ''Cannot read properties of null (reading message)'')"
    by simp
  have ne: "(500::int) \<noteq> 401" by simp
  show ?thesis
    unfolding verb_other_throw [OF h1 ne h2]
    by (simp add: session_A1_fields)
qed

section \<open>The refresh routine\<close>

text \<open>
  Claim C4. When the call of the refresh routine succeeds, the new access token and the
  new refresh token are stored under \<open>access_token\<close> and \<open>refresh_token\<close>, both with
  path \<open>/\<close> and an expiry 30 days after the call. The two writes follow each other
  with nothing in between, and a handler invoked afterwards reads both new values.
\<close>

theorem refresh_success_stores_both_tokens:
  assumes "auth e (requests_of (trace w)) (refresh_request e w) = HttpOk st resp"
      and "w' = snd (RefreshToken e w w)"
      and "expiry = plus_days (now w) 30"
  shows "fst (RefreshToken e w w) = Val JUndefined
       \<and> cookies w' ''access_token'' = Some \<lparr>cvalue = access_token resp, expires = expiry, cpath = ''/''\<rparr>
       \<and> cookies w' ''refresh_token'' = Some \<lparr>cvalue = refresh_token resp, expires = expiry, cpath = ''/''\<rparr>
       \<and> day_number expiry = day_number (now w) + 30
       \<and> trace w' = trace w @
            [HttpSent (refresh_request e w),
             CookieSet ''access_token'' (access_token resp) expiry ''/'',
             CookieSet ''refresh_token'' (refresh_token resp) expiry ''/'']
       \<and> handler_views (trace (snd (closure s d w'))) = handler_views (trace w) @ [session_view w']
       \<and> map_of (session_view w') ''access_token'' = Some (access_token resp)
       \<and> map_of (session_view w') ''refresh_token'' = Some (refresh_token resp)"
proof -
  have w': "w' = w\<lparr>cookies := refreshed w resp,
        trace := trace w @
          [HttpSent (refresh_request e w),
           CookieSet ''access_token'' (access_token resp) (plus_days (now w) 30) ''/'',
           CookieSet ''refresh_token'' (refresh_token resp) (plus_days (now w) 30) ''/'']\<rparr>"
    using refresh_ok [OF assms(1) refl refl] assms(2) by simp
  have res: "fst (RefreshToken e w w) = Val JUndefined"
    using refresh_ok [OF assms(1) refl refl] by simp
  have store: "cookies w' ''access_token'' = Some \<lparr>cvalue = access_token resp, expires = expiry, cpath = ''/''\<rparr>"
    "cookies w' ''refresh_token'' = Some \<lparr>cvalue = refresh_token resp, expires = expiry, cpath = ''/''\<rparr>"
    by (simp_all add: w' refreshed_def assms(3))
  have days: "day_number expiry = day_number (now w) + 30"
    by (simp add: assms(3) plus_days_def)
  have tr: "trace w' = trace w @
            [HttpSent (refresh_request e w),
             CookieSet ''access_token'' (access_token resp) expiry ''/'',
             CookieSet ''refresh_token'' (refresh_token resp) expiry ''/'']"
    by (simp add: w' assms(3))
  have views: "handler_views (trace (snd (closure s d w'))) = handler_views (trace w) @ [session_view w']"
    by (simp add: closure_def tr handler_views_append)
  have seen: "map_of (session_view w') ''access_token'' = Some (access_token resp)"
    "map_of (session_view w') ''refresh_token'' = Some (refresh_token resp)"
    using store by (simp_all add: session_view_def session_keys_def cookieService_get_def)
  from res store days tr views seen show ?thesis by simp
qed

theorem refresh_success_stores_both_tokens_witness:
  "auth env_renewed (requests_of (trace session_A1)) (refresh_request env_renewed session_A1)
     = HttpOk 200 \<lparr>access_token = ''A2'', refresh_token = ''R2''\<rparr>
   \<and> cookies (snd (RefreshToken env_renewed session_A1 session_A1)) ''access_token'' =
       Some \<lparr>cvalue = ''A2'', expires = \<lparr>day_number = 42, time_of_day = 0\<rparr>, cpath = ''/''\<rparr>
   \<and> cookies (snd (RefreshToken env_renewed session_A1 session_A1)) ''refresh_token'' =
       Some \<lparr>cvalue = ''R2'', expires = \<lparr>day_number = 42, time_of_day = 0\<rparr>, cpath = ''/''\<rparr>
   \<and> map_of (session_view (snd (RefreshToken env_renewed session_A1 session_A1))) ''access_token'' = Some ''A2''
   \<and> map_of (session_view (snd (RefreshToken env_renewed session_A1 session_A1))) ''refresh_token'' = Some ''R2''"
proof -
  have h: "auth env_renewed (requests_of (trace session_A1)) (refresh_request env_renewed session_A1)
     = HttpOk 200 \<lparr>access_token = ''A2'', refresh_token = ''R2''\<rparr>"
    by (simp add: env_renewed_def auth_rotates_def refresh_request_def session_A1_fields)
  have n: "plus_days (now session_A1) 30 = \<lparr>day_number = 42, time_of_day = 0\<rparr>"
    by (simp add: plus_days_def session_A1_def)
  from refresh_success_stores_both_tokens [OF h refl refl] h n
  show ?thesis by simp
qed

text \<open>
  Claim C5. When the call of the refresh routine fails with status 401, \<open>logoutUser\<close>
  runs: the five session keys are deleted (each then reads as the empty string) and the
  page is reloaded; after that the router is sent to \<open>/401\<close>, which is how the need to
  log in again is signalled. The observable itself emits \<open>null\<close>.
\<close>

theorem refresh_rejected_clears_session:
  assumes "auth e (requests_of (trace w)) (refresh_request e w) = HttpFail 401 b"
      and "w' = snd (RefreshToken e w w)"
  shows "fst (RefreshToken e w w) = Val JNull
       \<and> cookies w' ''is_loggedin'' = None \<and> cookies w' ''logged_user'' = None
       \<and> cookies w' ''role'' = None \<and> cookies w' ''access_token'' = None
       \<and> cookies w' ''refresh_token'' = None
       \<and> session_view w' =
           [(''is_loggedin'', []), (''logged_user'', []), (''role'', []),
            (''access_token'', []), (''refresh_token'', [])]
       \<and> trace w' = trace w @
            [HttpSent (refresh_request e w),
             CookieDeleted ''is_loggedin'' ''/'', CookieDeleted ''logged_user'' ''/'',
             CookieDeleted ''role'' ''/'', CookieDeleted ''access_token'' ''/'',
             CookieDeleted ''refresh_token'' ''/'', Reloaded, Navigated [''/401'']]"
proof -
  have w': "w' = w\<lparr>cookies := cleared w,
        trace := trace w @
          [HttpSent (refresh_request e w),
           CookieDeleted ''is_loggedin'' ''/'', CookieDeleted ''logged_user'' ''/'',
           CookieDeleted ''role'' ''/'', CookieDeleted ''access_token'' ''/'',
           CookieDeleted ''refresh_token'' ''/'', Reloaded, Navigated [''/401'']]\<rparr>"
    using refresh_401 [OF assms(1)] assms(2) by simp
  have res: "fst (RefreshToken e w w) = Val JNull"
    using refresh_401 [OF assms(1)] by simp
  have store: "cookies w' ''is_loggedin'' = None" "cookies w' ''logged_user'' = None"
    "cookies w' ''role'' = None" "cookies w' ''access_token'' = None"
    "cookies w' ''refresh_token'' = None"
    by (simp_all add: w' cleared_def)
  have view: "session_view w' =
           [(''is_loggedin'', []), (''logged_user'', []), (''role'', []),
            (''access_token'', []), (''refresh_token'', [])]"
    using store by (simp add: session_view_def session_keys_def cookieService_get_def)
  have tr: "trace w' = trace w @
            [HttpSent (refresh_request e w),
             CookieDeleted ''is_loggedin'' ''/'', CookieDeleted ''logged_user'' ''/'',
             CookieDeleted ''role'' ''/'', CookieDeleted ''access_token'' ''/'',
             CookieDeleted ''refresh_token'' ''/'', Reloaded, Navigated [''/401'']]"
    by (simp add: w')
  from res store view tr show ?thesis by simp
qed

theorem refresh_rejected_clears_session_witness:
  "auth env_revoked (requests_of (trace session_A1)) (refresh_request env_revoked session_A1)
     = HttpFail 401 (JObj [(''message'', JStr ''refresh token revoked'')])
   \<and> session_view session_A1 =
       [(''is_loggedin'', ''yes''), (''logged_user'', ''alice''), (''role'', ''admin''),
        (''access_token'', ''A1''), (''refresh_token'', ''R1'')]
   \<and> session_view (snd (RefreshToken env_revoked session_A1 session_A1)) =
       [(''is_loggedin'', []), (''logged_user'', []), (''role'', []),
        (''access_token'', []), (''refresh_token'', [])]
   \<and> trace (snd (RefreshToken env_revoked session_A1 session_A1)) =
       [HttpSent (refresh_request env_revoked session_A1),
        CookieDeleted ''is_loggedin'' ''/'', CookieDeleted ''logged_user'' ''/'',
        CookieDeleted ''role'' ''/'', CookieDeleted ''access_token'' ''/'',
        CookieDeleted ''refresh_token'' ''/'', Reloaded, Navigated [''/401'']]"
proof -
  have h: "auth env_revoked (requests_of (trace session_A1)) (refresh_request env_revoked session_A1)
     = HttpFail 401 (JObj [(''message'', JStr ''refresh token revoked'')])"
    by (simp add: env_revoked_def)
  have before: "session_view session_A1 =
       [(''is_loggedin'', ''yes''), (''logged_user'', ''alice''), (''role'', ''admin''),
        (''access_token'', ''A1''), (''refresh_token'', ''R1'')]"
    by (simp add: session_view_def session_keys_def cookieService_get_def session_A1_def stored_def)
  from refresh_rejected_clears_session [OF h refl] h before
  show ?thesis by (simp add: session_A1_fields)
qed

text \<open>
  Claim C6. When the call of the refresh routine fails with a status other than 401, the
  router is sent to \<open>/400\<close> and the store is exactly as before: the only effects are the
  request and the navigation.
\<close>

theorem refresh_other_failure_keeps_session:
  assumes "auth e (requests_of (trace w)) (refresh_request e w) = HttpFail st b"
      and "st \<noteq> 401"
      and "w' = snd (RefreshToken e w w)"
  shows "fst (RefreshToken e w w) = Val JNull
       \<and> cookies w' = cookies w
       \<and> trace w' = trace w @ [HttpSent (refresh_request e w), Navigated [''/400'']]"
  using refresh_other [OF assms(1,2)] assms(3) by simp

theorem refresh_other_failure_keeps_session_witness:
  "auth env_auth_down (requests_of (trace session_A1)) (refresh_request env_auth_down session_A1)
     = HttpFail 503 JNull
   \<and> cookies (snd (RefreshToken env_auth_down session_A1 session_A1)) = cookies session_A1
   \<and> trace (snd (RefreshToken env_auth_down session_A1 session_A1)) =
       [HttpSent (refresh_request env_auth_down session_A1), Navigated [''/400'']]"
proof -
  have h: "auth env_auth_down (requests_of (trace session_A1)) (refresh_request env_auth_down session_A1)
     = HttpFail 503 JNull"
    by (simp add: env_auth_down_def)
  have ne: "(503::int) \<noteq> 401" by simp
  from refresh_other_failure_keeps_session [OF h ne refl] h
  show ?thesis by (simp add: session_A1_fields)
qed

section \<open>Logout\<close>

text \<open>
  Claim C7. After \<open>logoutUser\<close>, whatever the store held before, none of the five session
  keys is set and each reads as the empty string; the five deletes are followed by the
  reload of the page.
\<close>

theorem logout_clears_session:
  "fst (logoutUser w) = Val JUndefined
   \<and> cookies (snd (logoutUser w)) ''is_loggedin'' = None
   \<and> cookies (snd (logoutUser w)) ''logged_user'' = None
   \<and> cookies (snd (logoutUser w)) ''role'' = None
   \<and> cookies (snd (logoutUser w)) ''access_token'' = None
   \<and> cookies (snd (logoutUser w)) ''refresh_token'' = None
   \<and> cookieService_get (snd (logoutUser w)) ''is_loggedin'' = []
   \<and> cookieService_get (snd (logoutUser w)) ''logged_user'' = []
   \<and> cookieService_get (snd (logoutUser w)) ''role'' = []
   \<and> cookieService_get (snd (logoutUser w)) ''access_token'' = []
   \<and> cookieService_get (snd (logoutUser w)) ''refresh_token'' = []
   \<and> trace (snd (logoutUser w)) = trace w @
        [CookieDeleted ''is_loggedin'' ''/'', CookieDeleted ''logged_user'' ''/'',
         CookieDeleted ''role'' ''/'', CookieDeleted ''access_token'' ''/'',
         CookieDeleted ''refresh_token'' ''/'', Reloaded]"
proof -
  have run: "logoutUser w =
      (Val JUndefined,
       w\<lparr>cookies := cleared w,
         trace := trace w @
           [CookieDeleted ''is_loggedin'' ''/'', CookieDeleted ''logged_user'' ''/'',
            CookieDeleted ''role'' ''/'', CookieDeleted ''access_token'' ''/'',
            CookieDeleted ''refresh_token'' ''/'', Reloaded]\<rparr>)"
    by (simp add: collaborator_defs andThen_def emit_def cleared_def)
  show ?thesis
    by (simp add: run cleared_def cookieService_get_def)
qed

section \<open>Failures other than 401\<close>

lemma get_prop_cases:
  "(\<exists>m. get_prop b name = Val m) \<or> (\<exists>t. get_prop b name = Raise t \<and> (b = JNull \<or> b = JUndefined))"
  by (cases b) simp_all

lemma get_prop_defined:
  "b \<noteq> JNull \<Longrightarrow> b \<noteq> JUndefined \<Longrightarrow> \<exists>m. get_prop b name = Val m"
  using get_prop_cases [of b name] by auto

text \<open>
  Claim C8 (as stated, fails on the code). The handler does not receive the error
  payload itself: the source passes \<open>error.error.message\<close>. Here the API answers 500
  with the body \<open>{message: "boom", code: 17}\<close>, and the handler receives \<open>"boom"\<close>.
\<close>

theorem error_payload_not_verbatim:
  "api env_500_message (requests_of (trace session_A1))
      (request_of env_500_message (Delete ''/orders/7'') ''A1'')
     = HttpFail 500 (JObj [(''message'', JStr ''boom''), (''code'', JNum 17)])
   \<and> handler_calls (trace (run_verb env_500_message (Delete ''/orders/7'') session_A1)) =
       [(JNum 500, JStr ''boom'')]
   \<and> handler_calls (trace (run_verb env_500_message (Delete ''/orders/7'') session_A1)) \<noteq>
       [(JNum 500, JObj [(''message'', JStr ''boom''), (''code'', JNum 17)])]"
proof -
  have h: "api env_500_message (requests_of (trace session_A1))
      (request_of env_500_message (Delete ''/orders/7'') (cookieService_get session_A1 ''access_token''))
     = HttpFail 500 (JObj [(''message'', JStr ''boom''), (''code'', JNum 17)])"
    by (simp add: env_500_message_def)
  have m: "get_prop (JObj [(''message'', JStr ''boom''), (''code'', JNum 17)]) ''message'' = Val (JStr ''boom'')"
    by simp
  have ne: "(500::int) \<noteq> 401" by simp
  show ?thesis
    unfolding verb_other [OF h ne m]
    using h by (simp add: session_A1_fields)
qed

text \<open>
  Claim C8, amended. For each of the four verb operations: when the first request fails
  with a status other than 401 and an error payload that is neither \<open>null\<close> nor
  \<open>undefined\<close> (so that its \<open>message\<close> can be read), no refresh is attempted, the store
  is unchanged, and the handler is called with the status and the \<open>message\<close> property of
  the payload (\<open>undefined\<close> where the payload has none).
\<close>

theorem other_failure_delivers_message:
  assumes "req1 = request_of e c (cookieService_get w ''access_token'')"
      and "api e (requests_of (trace w)) req1 = HttpFail st b"
      and "st \<noteq> 401"
      and "get_prop b ''message'' = Val m"
  shows "requests_of (trace (run_verb e c w)) = requests_of (trace w) @ [req1]
       \<and> handler_calls (trace (run_verb e c w)) = handler_calls (trace w) @ [(JNum st, m)]
       \<and> cookies (run_verb e c w) = cookies w"
  using verb_other [of e w c st b m] assms
  by (simp add: requests_of_append handler_calls_append)

theorem other_failure_delivers_message_witness:
  "api env_500_message (requests_of (trace session_A1))
      (request_of env_500_message (Put ''/orders/7'' (JObj [(''qty'', JNum 2)])) ''A1'')
     = HttpFail 500 (JObj [(''message'', JStr ''boom''), (''code'', JNum 17)])
   \<and> get_prop (JObj [(''message'', JStr ''boom''), (''code'', JNum 17)]) ''message'' = Val (JStr ''boom'')
   \<and> requests_of (trace (run_verb env_500_message (Put ''/orders/7'' (JObj [(''qty'', JNum 2)])) session_A1)) =
       [request_of env_500_message (Put ''/orders/7'' (JObj [(''qty'', JNum 2)])) ''A1'']
   \<and> handler_calls (trace (run_verb env_500_message (Put ''/orders/7'' (JObj [(''qty'', JNum 2)])) session_A1)) =
       [(JNum 500, JStr ''boom'')]"
proof -
  have h: "api env_500_message (requests_of (trace session_A1))
      (request_of env_500_message (Put ''/orders/7'' (JObj [(''qty'', JNum 2)])) (cookieService_get session_A1 ''access_token''))
     = HttpFail 500 (JObj [(''message'', JStr ''boom''), (''code'', JNum 17)])"
    by (simp add: env_500_message_def)
  have m: "get_prop (JObj [(''message'', JStr ''boom''), (''code'', JNum 17)]) ''message'' = Val (JStr ''boom'')"
    by simp
  have ne: "(500::int) \<noteq> 401" by simp
  from other_failure_delivers_message [OF refl h ne m] h m
  show ?thesis by (simp add: session_A1_fields)
qed

section \<open>The download operation\<close>

text \<open>
  Claim C9 (fails on the code). \<open>PostDownload\<close> never subscribes to the pipeline it
  builds, so a call sends no request, opens nothing and logs nothing: the world is left
  as it was.
\<close>

theorem PostDownload_does_nothing:
  "PostDownload e uri payload w = w
   \<and> requests_of (trace (PostDownload e uri payload w)) = requests_of (trace w)"
  by (simp add: PostDownload_def)

text \<open>Had the pipeline been subscribed, as in the four verb operations, the request would be sent.\<close>

lemma PostDownload_pipe_subscribed:
  "requests_of (trace (subscribe (PostDownload_pipe e uri payload) w)) =
     requests_of (trace w) @
       [\<lparr>rverb = POST, url = apiUrl e @ uri, body = Some payload,
         headers = [(''Accept'', spreadsheet_mime)], responseType = Blob\<rparr>]"
  by (simp add: PostDownload_pipe_def subscribe_def catchError_def map_rx_def andThen_def
        returns_def of_rx_def http_post_blob_def http_request_def window_open_def
        console_log_def emit_def requests_of_append
        split: http_result.splits)

section \<open>All runs of a verb operation\<close>

text \<open>
  Every run of a verb operation has one of four shapes, told apart by the answers to the
  first request and to the refresh.
\<close>

lemma verb_shapes:
  "(\<exists>st v. api e (requests_of (trace w)) (request_of e c (cookieService_get w ''access_token'')) = HttpOk st v
        \<and> requests_of (trace (run_verb e c w)) =
            requests_of (trace w) @ [request_of e c (cookieService_get w ''access_token'')]
        \<and> handler_calls (trace (run_verb e c w)) = handler_calls (trace w) @ [(JNum 200, v)])
   \<or> (\<exists>st b m. api e (requests_of (trace w)) (request_of e c (cookieService_get w ''access_token'')) = HttpFail st b
        \<and> st \<noteq> 401 \<and> get_prop b ''message'' = Val m
        \<and> requests_of (trace (run_verb e c w)) =
            requests_of (trace w) @ [request_of e c (cookieService_get w ''access_token'')]
        \<and> handler_calls (trace (run_verb e c w)) = handler_calls (trace w) @ [(JNum st, m)])
   \<or> (\<exists>st b. api e (requests_of (trace w)) (request_of e c (cookieService_get w ''access_token'')) = HttpFail st b
        \<and> st \<noteq> 401 \<and> (b = JNull \<or> b = JUndefined)
        \<and> requests_of (trace (run_verb e c w)) =
            requests_of (trace w) @ [request_of e c (cookieService_get w ''access_token'')]
        \<and> handler_calls (trace (run_verb e c w)) = handler_calls (trace w))
   \<or> (\<exists>b req2. api e (requests_of (trace w)) (request_of e c (cookieService_get w ''access_token'')) = HttpFail 401 b
        \<and> requests_of (trace (run_verb e c w)) =
            requests_of (trace w) @
              [request_of e c (cookieService_get w ''access_token''), refresh_request e w, req2]
        \<and> handler_calls (trace (run_verb e c w)) =
            handler_calls (trace w) @
              [delivered (api e (requests_of (trace w) @
                 [request_of e c (cookieService_get w ''access_token''), refresh_request e w]) req2)])"
  (is "?ok \<or> ?msg \<or> ?thrown \<or> ?retried")
proof (cases "api e (requests_of (trace w)) (request_of e c (cookieService_get w ''access_token''))")
  case (HttpOk st v)
  then have ?ok
    using verb_ok [of e w c st v] by (simp add: requests_of_append handler_calls_append)
  then show ?thesis by blast
next
  case first: (HttpFail st b)
  show ?thesis
  proof (cases "st = 401")
    case False
    from get_prop_cases [of b "''message''"]
    consider m where "get_prop b ''message'' = Val m"
      | t where "get_prop b ''message'' = Raise t" and "b = JNull \<or> b = JUndefined"
      by blast
    then show ?thesis
    proof cases
      case 1
      then have ?msg
        using first False verb_other [of e w c st b m]
        by (simp add: requests_of_append handler_calls_append)
      then show ?thesis by blast
    next
      case 2
      then have ?thrown
        using first False verb_other_throw [of e w c st b t]
        by (simp add: requests_of_append handler_calls_append)
      then show ?thesis by blast
    qed
  next
    case True
    have ?retried
    proof (cases "auth e (requests_of (trace w) @ [request_of e c (cookieService_get w ''access_token'')]) (refresh_request e w)")
      case (HttpOk rst resp)
      then show ?thesis
        using first True verb_401_refresh_ok [of e w c b rst resp]
        by (simp add: requests_of_append handler_calls_append)
    next
      case second: (HttpFail rst rb)
      show ?thesis
      proof (cases "rst = 401")
        case True
        then show ?thesis
          using first \<open>st = 401\<close> second verb_401_refresh_401 [of e w c b rb]
          by (simp add: requests_of_append handler_calls_append)
      next
        case False
        then show ?thesis
          using first \<open>st = 401\<close> second verb_401_refresh_other [of e w c b rst rb]
          by (simp add: requests_of_append handler_calls_append)
      qed
    qed
    then show ?thesis by blast
  qed
qed

text \<open>
  The handler is never called twice, and it is called once unless the first request
  failed with a status other than 401 and a payload whose \<open>message\<close> cannot be read.
\<close>

lemma handler_called_at_most_once:
  "handler_calls (trace (run_verb e c w)) = handler_calls (trace w)
     \<and> (\<exists>st b. api e (requests_of (trace w)) (request_of e c (cookieService_get w ''access_token'')) = HttpFail st b
            \<and> st \<noteq> 401 \<and> (b = JNull \<or> b = JUndefined))
   \<or> (\<exists>call. handler_calls (trace (run_verb e c w)) = handler_calls (trace w) @ [call])"
  using verb_shapes [of e w c] by (elim disjE exE conjE) simp_all

text \<open>
  In a verb operation whose refresh succeeded, the one invocation of the handler reads
  both new tokens from the store.
\<close>

lemma handler_reads_both_new_tokens:
  assumes "api e (requests_of (trace w)) (request_of e c (cookieService_get w ''access_token'')) = HttpFail 401 b"
      and "auth e (requests_of (trace w) @ [request_of e c (cookieService_get w ''access_token'')]) (refresh_request e w) = HttpOk st resp"
  shows "\<exists>seen. handler_views (trace (run_verb e c w)) = handler_views (trace w) @ [seen]
           \<and> map_of seen ''access_token'' = Some (access_token resp)
           \<and> map_of seen ''refresh_token'' = Some (refresh_token resp)"
  unfolding verb_401_refresh_ok [OF assms]
  by (simp add: handler_views_append session_view_def session_keys_def cookieService_get_def
        refreshed_def)

text \<open>
  Claim C10. For each of the four verb operations: when the last request of the call
  (the first attempt, or the request reissued after a refresh) is answered with a success,
  whatever its 2xx status, the handler is called with the constant 200 and the body.
\<close>

theorem success_is_reported_as_200:
  assumes "rs = requests_of (trace (run_verb e c w))"
      and "api e (butlast rs) (last rs) = HttpOk st v"
  shows "handler_calls (trace (run_verb e c w)) = handler_calls (trace w) @ [(JNum 200, v)]"
  using verb_shapes [of e w c] assms
  by (elim disjE exE conjE) (simp_all add: butlast_append delivered_def)

theorem success_is_reported_as_200_witness:
  "requests_of (trace (run_verb env_renewed (Post ''/orders'' (JObj [(''qty'', JNum 2)])) session_A1)) =
     [request_of env_renewed (Post ''/orders'' (JObj [(''qty'', JNum 2)])) ''A1'',
      refresh_request env_renewed session_A1,
      request_of env_renewed (Post ''/orders'' (JObj [(''qty'', JNum 2)])) ''A2'']
   \<and> api env_renewed
        [request_of env_renewed (Post ''/orders'' (JObj [(''qty'', JNum 2)])) ''A1'',
         refresh_request env_renewed session_A1]
        (request_of env_renewed (Post ''/orders'' (JObj [(''qty'', JNum 2)])) ''A2'')
      = HttpOk 201 (JObj [(''id'', JNum 7)])
   \<and> handler_calls (trace (run_verb env_renewed (Post ''/orders'' (JObj [(''qty'', JNum 2)])) session_A1)) =
       [(JNum 200, JObj [(''id'', JNum 7)])]"
proof -
  let ?c = "Post ''/orders'' (JObj [(''qty'', JNum 2)])"
  have h1: "api env_renewed (requests_of (trace session_A1))
              (request_of env_renewed ?c (cookieService_get session_A1 ''access_token''))
            = HttpFail 401 (JObj [(''message'', JStr ''token expired'')])"
    by (simp add: env_renewed_def session_A1_fields bearer_def)
  have h2: "auth env_renewed
              (requests_of (trace session_A1) @
                 [request_of env_renewed ?c (cookieService_get session_A1 ''access_token'')])
              (refresh_request env_renewed session_A1)
            = HttpOk 200 \<lparr>access_token = ''A2'', refresh_token = ''R2''\<rparr>"
    by (simp add: env_renewed_def auth_rotates_def refresh_request_def session_A1_fields)
  have rs: "requests_of (trace (run_verb env_renewed ?c session_A1)) =
     [request_of env_renewed ?c ''A1'', refresh_request env_renewed session_A1,
      request_of env_renewed ?c ''A2'']"
    unfolding verb_401_refresh_ok [OF h1 h2]
    by (simp add: session_A1_fields requests_of_append)
  have last: "api env_renewed
        [request_of env_renewed ?c ''A1'', refresh_request env_renewed session_A1]
        (request_of env_renewed ?c ''A2'')
      = HttpOk 201 (JObj [(''id'', JNum 7)])"
    by (simp add: env_renewed_def bearer_def)
  have hyp: "api env_renewed
        (butlast (requests_of (trace (run_verb env_renewed ?c session_A1))))
        (last (requests_of (trace (run_verb env_renewed ?c session_A1))))
      = HttpOk 201 (JObj [(''id'', JNum 7)])"
    unfolding rs using last by simp
  from success_is_reported_as_200 [OF refl hyp] rs last
  show ?thesis by (simp add: session_A1_fields)
qed

end
